theory Spec2Isabelle
  imports Main
begin

section \<open>Python values, dictionaries and errors\<close>

text \<open>
  The auto-reply engine of \<^verbatim>\<open>src/bot.py\<close> (class \<^verbatim>\<open>AutoReplyManager\<close>) and its caller
  \<^verbatim>\<open>MaryAssistantBot.check_auto_reply\<close>, embedded as HOL functions.

  A Python \<^verbatim>\<open>str\<close> is a \<^typ>\<open>string\<close> holding its UTF-8 bytes: keys, zone names and
  placeholders are ASCII and written as literals, the Russian texts and the emoji are written
  byte by byte. Equality and containment of texts are the same on bytes as on code points.

  The values the bot keeps under the keys the engine reads are texts or \<^verbatim>\<open>None\<close>.
\<close>

datatype pyval = PyNone | PyStr string

text \<open>Truth value of a Python object: \<^verbatim>\<open>None\<close> and the empty text are false.\<close>

fun truthy :: "pyval \<Rightarrow> bool" where
  "truthy PyNone = False"
| "truthy (PyStr s) = (s \<noteq> [])"

text \<open>What \<^verbatim>\<open>str.format\<close> writes for a value: \<^verbatim>\<open>format(None, '')\<close> is the text \<^verbatim>\<open>None\<close>.\<close>

fun py_str :: "pyval \<Rightarrow> string" where
  "py_str PyNone = ''None''"
| "py_str (PyStr s) = s"

text \<open>Every exception the modelled code can raise is a value; \<open>Inl\<close> carries it.\<close>

datatype error = AttributeError | KeyError | ValueError | UnknownTimeZoneError | NotModelled

definition and_then :: "error + 'a \<Rightarrow> ('a \<Rightarrow> error + 'b) \<Rightarrow> error + 'b" where
  "and_then r f = (case r of Inl e \<Rightarrow> Inl e | Inr x \<Rightarrow> f x)"

text \<open>A \<^verbatim>\<open>dict\<close> with text keys, in insertion order.\<close>

type_synonym 'v dict = "(string \<times> 'v) list"

text \<open>\<^verbatim>\<open>d[k]\<close> raises \<^verbatim>\<open>KeyError\<close> on a missing key.\<close>

definition getitem :: "'v dict \<Rightarrow> string \<Rightarrow> error + 'v" where
  "getitem d k = (case map_of d k of None \<Rightarrow> Inl KeyError | Some v \<Rightarrow> Inr v)"

text \<open>\<^verbatim>\<open>d.get(k, default)\<close>: the default stands in for a missing key only, never for a
  stored \<^verbatim>\<open>None\<close>.\<close>

definition dict_get :: "pyval dict \<Rightarrow> string \<Rightarrow> pyval \<Rightarrow> pyval" where
  "dict_get d k dflt = (case map_of d k of None \<Rightarrow> dflt | Some v \<Rightarrow> v)"

section \<open>Enumerations\<close>

datatype AutoReplyMode = OFF | WORK_HOURS | ALWAYS | CUSTOM | VACATION | SICK

datatype UserStatus = AVAILABLE | BUSY | MEETING | VACATION | SICK | LUNCH

text \<open>
  The two methods are annotated with the enumerations, but Python does not enforce the
  annotation: a caller can pass any object. \<open>Member e\<close> is a member of the enumeration,
  \<open>Foreign v\<close> a value that is none (a raw stored text, or \<^verbatim>\<open>None\<close>). An enumeration member
  compares equal to itself only, so every test \<^verbatim>\<open>mode == AutoReplyMode.X\<close> is false on a
  foreign value.
\<close>

datatype 'e enum_arg = Member 'e | Foreign pyval

text \<open>\<^verbatim>\<open>AutoReplyMode(value)\<close> and \<^verbatim>\<open>UserStatus(value)\<close>: the member with that value, or
  \<^verbatim>\<open>ValueError\<close>.\<close>

definition AutoReplyMode_of :: "pyval \<Rightarrow> error + AutoReplyMode" where
  "AutoReplyMode_of v =
     (if v = PyStr ''off'' then Inr AutoReplyMode.OFF
      else if v = PyStr ''work_hours'' then Inr AutoReplyMode.WORK_HOURS
      else if v = PyStr ''always'' then Inr AutoReplyMode.ALWAYS
      else if v = PyStr ''custom'' then Inr AutoReplyMode.CUSTOM
      else if v = PyStr ''vacation'' then Inr AutoReplyMode.VACATION
      else if v = PyStr ''sick'' then Inr AutoReplyMode.SICK
      else Inl ValueError)"

definition UserStatus_of :: "pyval \<Rightarrow> error + UserStatus" where
  "UserStatus_of v =
     (if v = PyStr ''available'' then Inr UserStatus.AVAILABLE
      else if v = PyStr ''busy'' then Inr UserStatus.BUSY
      else if v = PyStr ''meeting'' then Inr UserStatus.MEETING
      else if v = PyStr ''vacation'' then Inr UserStatus.VACATION
      else if v = PyStr ''sick'' then Inr UserStatus.SICK
      else if v = PyStr ''lunch'' then Inr UserStatus.LUNCH
      else Inl ValueError)"

section \<open>The wall clock\<close>

text \<open>
  Both methods read the wall clock themselves, through \<^verbatim>\<open>datetime.now(pytz.timezone(name))\<close>,
  and look at \<^verbatim>\<open>now.weekday()\<close> (0 is Monday, 6 is Sunday) and \<^verbatim>\<open>now.hour\<close> only. The
  clock is the environment of a call: for each zone name the time-zone library knows, the
  local time there at the instant of the call.
\<close>

record local_time =
  weekday :: nat
  hour :: nat

type_synonym clock = "(string \<times> local_time) list"

text \<open>\<^verbatim>\<open>datetime.now(pytz.timezone(name))\<close>. The library raises \<^verbatim>\<open>UnknownTimeZoneError\<close> for a
  name it does not know, and for \<^verbatim>\<open>None\<close>.\<close>

fun now_in :: "clock \<Rightarrow> pyval \<Rightarrow> error + local_time" where
  "now_in clk PyNone = Inl UnknownTimeZoneError"
| "now_in clk (PyStr name) =
     (case map_of clk name of None \<Rightarrow> Inl UnknownTimeZoneError | Some t \<Rightarrow> Inr t)"

section \<open>The response catalogue\<close>

text \<open>
  \<^verbatim>\<open>AutoReplyManager.__init__\<close>: the nine templates of \<^verbatim>\<open>self.responses\<close>, in the order of
  the source. Nothing assigns to it afterwards. Every text starts with the same emoji (eleven
  bytes); in English they read:
  \<^item> \<^verbatim>\<open>default\<close>: I am busy right now. I will answer you shortly!
  \<^item> \<^verbatim>\<open>work_hours\<close>: The working day is over. I will answer tomorrow from 9:00.
  \<^item> \<^verbatim>\<open>busy\<close>: I am busy at the moment. I will call you back later.
  \<^item> \<^verbatim>\<open>meeting\<close>: I am in a meeting. I will answer when it is over.
  \<^item> \<^verbatim>\<open>vacation\<close>: I am on vacation until \<^verbatim>\<open>{date}\<close>. For urgent matters write 'URGENT'.
  \<^item> \<^verbatim>\<open>sick\<close>: I am ill. I will be back at work \<^verbatim>\<open>{date}\<close>. Thank you for understanding.
  \<^item> \<^verbatim>\<open>lunch\<close>: I am on my lunch break. I will be back at \<^verbatim>\<open>{time}\<close>.
  \<^item> \<^verbatim>\<open>weekend\<close>: Today is a day off. I will answer on Monday.
  \<^item> \<^verbatim>\<open>night\<close>: It is outside working hours now. I will answer in the morning.
\<close>

definition responses :: "(string \<times> string) list" where
  "responses =
    [(''default'',
       [CHR 0xF0, CHR 0x9F, CHR 0x91, CHR 0xA9, CHR 0xE2, CHR 0x80, CHR 0x8D, CHR 0xF0, CHR 0x9F, CHR 0x92, CHR 0xBC] @
       '' '' @ [CHR 0xD0, CHR 0xAF] @ '' '' @
       [CHR 0xD1, CHR 0x81, CHR 0xD0, CHR 0xB5, CHR 0xD0, CHR 0xB9, CHR 0xD1, CHR 0x87, CHR 0xD0, CHR 0xB0, CHR 0xD1, CHR 0x81] @
       '' '' @
       [CHR 0xD0, CHR 0xB7, CHR 0xD0, CHR 0xB0, CHR 0xD0, CHR 0xBD, CHR 0xD1, CHR 0x8F, CHR 0xD1, CHR 0x82, CHR 0xD0, CHR 0xB0] @
       ''. '' @
       [CHR 0xD0, CHR 0x9E, CHR 0xD1, CHR 0x82, CHR 0xD0, CHR 0xB2, CHR 0xD0, CHR 0xB5, CHR 0xD1, CHR 0x87, CHR 0xD1, CHR 0x83] @
       '' '' @ [CHR 0xD0, CHR 0xB2, CHR 0xD0, CHR 0xB0, CHR 0xD0, CHR 0xBC] @ '' '' @
       [CHR 0xD0, CHR 0xB2] @ '' '' @
       [CHR 0xD0, CHR 0xB1, CHR 0xD0, CHR 0xBB, CHR 0xD0, CHR 0xB8, CHR 0xD0, CHR 0xB6, CHR 0xD0, CHR 0xB0, CHR 0xD0, CHR 0xB9, CHR 0xD1, CHR 0x88, CHR 0xD0, CHR 0xB5, CHR 0xD0, CHR 0xB5] @
       '' '' @
       [CHR 0xD0, CHR 0xB2, CHR 0xD1, CHR 0x80, CHR 0xD0, CHR 0xB5, CHR 0xD0, CHR 0xBC, CHR 0xD1, CHR 0x8F] @
       ''!''),
     (''work_hours'',
       [CHR 0xF0, CHR 0x9F, CHR 0x91, CHR 0xA9, CHR 0xE2, CHR 0x80, CHR 0x8D, CHR 0xF0, CHR 0x9F, CHR 0x92, CHR 0xBC] @
       '' '' @
       [CHR 0xD0, CHR 0xA0, CHR 0xD0, CHR 0xB0, CHR 0xD0, CHR 0xB1, CHR 0xD0, CHR 0xBE, CHR 0xD1, CHR 0x87, CHR 0xD0, CHR 0xB8, CHR 0xD0, CHR 0xB9] @
       '' '' @
       [CHR 0xD0, CHR 0xB4, CHR 0xD0, CHR 0xB5, CHR 0xD0, CHR 0xBD, CHR 0xD1, CHR 0x8C] @
       '' '' @
       [CHR 0xD0, CHR 0xBE, CHR 0xD0, CHR 0xBA, CHR 0xD0, CHR 0xBE, CHR 0xD0, CHR 0xBD, CHR 0xD1, CHR 0x87, CHR 0xD0, CHR 0xB5, CHR 0xD0, CHR 0xBD] @
       ''. '' @
       [CHR 0xD0, CHR 0x9E, CHR 0xD1, CHR 0x82, CHR 0xD0, CHR 0xB2, CHR 0xD0, CHR 0xB5, CHR 0xD1, CHR 0x87, CHR 0xD1, CHR 0x83] @
       '' '' @
       [CHR 0xD0, CHR 0xB7, CHR 0xD0, CHR 0xB0, CHR 0xD0, CHR 0xB2, CHR 0xD1, CHR 0x82, CHR 0xD1, CHR 0x80, CHR 0xD0, CHR 0xB0] @
       '' '' @ [CHR 0xD1, CHR 0x81] @ '' 9:00.''),
     (''busy'',
       [CHR 0xF0, CHR 0x9F, CHR 0x91, CHR 0xA9, CHR 0xE2, CHR 0x80, CHR 0x8D, CHR 0xF0, CHR 0x9F, CHR 0x92, CHR 0xBC] @
       '' '' @ [CHR 0xD0, CHR 0x92] @ '' '' @
       [CHR 0xD0, CHR 0xB4, CHR 0xD0, CHR 0xB0, CHR 0xD0, CHR 0xBD, CHR 0xD0, CHR 0xBD, CHR 0xD1, CHR 0x8B, CHR 0xD0, CHR 0xB9] @
       '' '' @
       [CHR 0xD0, CHR 0xBC, CHR 0xD0, CHR 0xBE, CHR 0xD0, CHR 0xBC, CHR 0xD0, CHR 0xB5, CHR 0xD0, CHR 0xBD, CHR 0xD1, CHR 0x82] @
       '' '' @ [CHR 0xD1, CHR 0x8F] @ '' '' @
       [CHR 0xD0, CHR 0xB7, CHR 0xD0, CHR 0xB0, CHR 0xD0, CHR 0xBD, CHR 0xD1, CHR 0x8F, CHR 0xD1, CHR 0x82, CHR 0xD0, CHR 0xB0] @
       ''. '' @
       [CHR 0xD0, CHR 0x9F, CHR 0xD0, CHR 0xB5, CHR 0xD1, CHR 0x80, CHR 0xD0, CHR 0xB5, CHR 0xD0, CHR 0xB7, CHR 0xD0, CHR 0xB2, CHR 0xD0, CHR 0xBE, CHR 0xD0, CHR 0xBD, CHR 0xD1, CHR 0x8E] @
       '' '' @ [CHR 0xD0, CHR 0xB2, CHR 0xD0, CHR 0xB0, CHR 0xD0, CHR 0xBC] @ '' '' @
       [CHR 0xD0, CHR 0xBF, CHR 0xD0, CHR 0xBE, CHR 0xD0, CHR 0xB7, CHR 0xD0, CHR 0xB6, CHR 0xD0, CHR 0xB5] @
       ''.''),
     (''meeting'',
       [CHR 0xF0, CHR 0x9F, CHR 0x91, CHR 0xA9, CHR 0xE2, CHR 0x80, CHR 0x8D, CHR 0xF0, CHR 0x9F, CHR 0x92, CHR 0xBC] @
       '' '' @ [CHR 0xD0, CHR 0xAF] @ '' '' @ [CHR 0xD0, CHR 0xBD, CHR 0xD0, CHR 0xB0] @
       '' '' @
       [CHR 0xD1, CHR 0x81, CHR 0xD0, CHR 0xBE, CHR 0xD0, CHR 0xB2, CHR 0xD0, CHR 0xB5, CHR 0xD1, CHR 0x89, CHR 0xD0, CHR 0xB0, CHR 0xD0, CHR 0xBD, CHR 0xD0, CHR 0xB8, CHR 0xD0, CHR 0xB8] @
       ''. '' @
       [CHR 0xD0, CHR 0x9E, CHR 0xD1, CHR 0x82, CHR 0xD0, CHR 0xB2, CHR 0xD0, CHR 0xB5, CHR 0xD1, CHR 0x87, CHR 0xD1, CHR 0x83] @
       '' '' @
       [CHR 0xD0, CHR 0xBF, CHR 0xD0, CHR 0xBE, CHR 0xD1, CHR 0x81, CHR 0xD0, CHR 0xBB, CHR 0xD0, CHR 0xB5] @
       '' '' @ [CHR 0xD0, CHR 0xB5, CHR 0xD0, CHR 0xB3, CHR 0xD0, CHR 0xBE] @ '' '' @
       [CHR 0xD0, CHR 0xBE, CHR 0xD0, CHR 0xBA, CHR 0xD0, CHR 0xBE, CHR 0xD0, CHR 0xBD, CHR 0xD1, CHR 0x87, CHR 0xD0, CHR 0xB0, CHR 0xD0, CHR 0xBD, CHR 0xD0, CHR 0xB8, CHR 0xD1, CHR 0x8F] @
       ''.''),
     (''vacation'',
       [CHR 0xF0, CHR 0x9F, CHR 0x91, CHR 0xA9, CHR 0xE2, CHR 0x80, CHR 0x8D, CHR 0xF0, CHR 0x9F, CHR 0x92, CHR 0xBC] @
       '' '' @ [CHR 0xD0, CHR 0xAF] @ '' '' @ [CHR 0xD0, CHR 0xB2] @ '' '' @
       [CHR 0xD0, CHR 0xBE, CHR 0xD1, CHR 0x82, CHR 0xD0, CHR 0xBF, CHR 0xD1, CHR 0x83, CHR 0xD1, CHR 0x81, CHR 0xD0, CHR 0xBA, CHR 0xD0, CHR 0xB5] @
       '' '' @ [CHR 0xD0, CHR 0xB4, CHR 0xD0, CHR 0xBE] @ '' {date}. '' @
       [CHR 0xD0, CHR 0x9F, CHR 0xD0, CHR 0xBE] @ '' '' @
       [CHR 0xD1, CHR 0x81, CHR 0xD1, CHR 0x80, CHR 0xD0, CHR 0xBE, CHR 0xD1, CHR 0x87, CHR 0xD0, CHR 0xBD, CHR 0xD1, CHR 0x8B, CHR 0xD0, CHR 0xBC] @
       '' '' @
       [CHR 0xD0, CHR 0xB2, CHR 0xD0, CHR 0xBE, CHR 0xD0, CHR 0xBF, CHR 0xD1, CHR 0x80, CHR 0xD0, CHR 0xBE, CHR 0xD1, CHR 0x81, CHR 0xD0, CHR 0xB0, CHR 0xD0, CHR 0xBC] @
       '' '' @
       [CHR 0xD0, CHR 0xBD, CHR 0xD0, CHR 0xB0, CHR 0xD0, CHR 0xBF, CHR 0xD0, CHR 0xB8, CHR 0xD1, CHR 0x88, CHR 0xD0, CHR 0xB8, CHR 0xD1, CHR 0x82, CHR 0xD0, CHR 0xB5] @
       '' '' @
       [CHR 0x27, CHR 0xD0, CHR 0xA1, CHR 0xD0, CHR 0xA0, CHR 0xD0, CHR 0x9E, CHR 0xD0, CHR 0xA7, CHR 0xD0, CHR 0x9D, CHR 0xD0, CHR 0x9E, CHR 0x27] @
       ''.''),
     (''sick'',
       [CHR 0xF0, CHR 0x9F, CHR 0x91, CHR 0xA9, CHR 0xE2, CHR 0x80, CHR 0x8D, CHR 0xF0, CHR 0x9F, CHR 0x92, CHR 0xBC] @
       '' '' @ [CHR 0xD0, CHR 0xAF] @ '' '' @
       [CHR 0xD0, CHR 0xB1, CHR 0xD0, CHR 0xBE, CHR 0xD0, CHR 0xBB, CHR 0xD0, CHR 0xB5, CHR 0xD1, CHR 0x8E] @
       ''. '' @
       [CHR 0xD0, CHR 0x92, CHR 0xD0, CHR 0xB5, CHR 0xD1, CHR 0x80, CHR 0xD0, CHR 0xBD, CHR 0xD1, CHR 0x83, CHR 0xD1, CHR 0x81, CHR 0xD1, CHR 0x8C] @
       '' '' @ [CHR 0xD0, CHR 0xBA] @ '' '' @
       [CHR 0xD1, CHR 0x80, CHR 0xD0, CHR 0xB0, CHR 0xD0, CHR 0xB1, CHR 0xD0, CHR 0xBE, CHR 0xD1, CHR 0x82, CHR 0xD0, CHR 0xB5] @
       '' {date}. '' @
       [CHR 0xD0, CHR 0xA1, CHR 0xD0, CHR 0xBF, CHR 0xD0, CHR 0xB0, CHR 0xD1, CHR 0x81, CHR 0xD0, CHR 0xB8, CHR 0xD0, CHR 0xB1, CHR 0xD0, CHR 0xBE] @
       '' '' @ [CHR 0xD0, CHR 0xB7, CHR 0xD0, CHR 0xB0] @ '' '' @
       [CHR 0xD0, CHR 0xBF, CHR 0xD0, CHR 0xBE, CHR 0xD0, CHR 0xBD, CHR 0xD0, CHR 0xB8, CHR 0xD0, CHR 0xBC, CHR 0xD0, CHR 0xB0, CHR 0xD0, CHR 0xBD, CHR 0xD0, CHR 0xB8, CHR 0xD0, CHR 0xB5] @
       ''.''),
     (''lunch'',
       [CHR 0xF0, CHR 0x9F, CHR 0x91, CHR 0xA9, CHR 0xE2, CHR 0x80, CHR 0x8D, CHR 0xF0, CHR 0x9F, CHR 0x92, CHR 0xBC] @
       '' '' @ [CHR 0xD0, CHR 0xAF] @ '' '' @ [CHR 0xD0, CHR 0xBD, CHR 0xD0, CHR 0xB0] @
       '' '' @
       [CHR 0xD0, CHR 0xBE, CHR 0xD0, CHR 0xB1, CHR 0xD0, CHR 0xB5, CHR 0xD0, CHR 0xB4, CHR 0xD0, CHR 0xB5, CHR 0xD0, CHR 0xBD, CHR 0xD0, CHR 0xBD, CHR 0xD0, CHR 0xBE, CHR 0xD0, CHR 0xBC] @
       '' '' @
       [CHR 0xD0, CHR 0xBF, CHR 0xD0, CHR 0xB5, CHR 0xD1, CHR 0x80, CHR 0xD0, CHR 0xB5, CHR 0xD1, CHR 0x80, CHR 0xD1, CHR 0x8B, CHR 0xD0, CHR 0xB2, CHR 0xD0, CHR 0xB5] @
       ''. '' @
       [CHR 0xD0, CHR 0x92, CHR 0xD0, CHR 0xB5, CHR 0xD1, CHR 0x80, CHR 0xD0, CHR 0xBD, CHR 0xD1, CHR 0x83, CHR 0xD1, CHR 0x81, CHR 0xD1, CHR 0x8C] @
       '' '' @ [CHR 0xD0, CHR 0xB2] @ '' {time}.''),
     (''weekend'',
       [CHR 0xF0, CHR 0x9F, CHR 0x91, CHR 0xA9, CHR 0xE2, CHR 0x80, CHR 0x8D, CHR 0xF0, CHR 0x9F, CHR 0x92, CHR 0xBC] @
       '' '' @
       [CHR 0xD0, CHR 0xA1, CHR 0xD0, CHR 0xB5, CHR 0xD0, CHR 0xB3, CHR 0xD0, CHR 0xBE, CHR 0xD0, CHR 0xB4, CHR 0xD0, CHR 0xBD, CHR 0xD1, CHR 0x8F] @
       '' '' @
       [CHR 0xD0, CHR 0xB2, CHR 0xD1, CHR 0x8B, CHR 0xD1, CHR 0x85, CHR 0xD0, CHR 0xBE, CHR 0xD0, CHR 0xB4, CHR 0xD0, CHR 0xBD, CHR 0xD0, CHR 0xBE, CHR 0xD0, CHR 0xB9] @
       ''. '' @
       [CHR 0xD0, CHR 0x9E, CHR 0xD1, CHR 0x82, CHR 0xD0, CHR 0xB2, CHR 0xD0, CHR 0xB5, CHR 0xD1, CHR 0x87, CHR 0xD1, CHR 0x83] @
       '' '' @ [CHR 0xD0, CHR 0xB2] @ '' '' @
       [CHR 0xD0, CHR 0xBF, CHR 0xD0, CHR 0xBE, CHR 0xD0, CHR 0xBD, CHR 0xD0, CHR 0xB5, CHR 0xD0, CHR 0xB4, CHR 0xD0, CHR 0xB5, CHR 0xD0, CHR 0xBB, CHR 0xD1, CHR 0x8C, CHR 0xD0, CHR 0xBD, CHR 0xD0, CHR 0xB8, CHR 0xD0, CHR 0xBA] @
       ''.''),
     (''night'',
       [CHR 0xF0, CHR 0x9F, CHR 0x91, CHR 0xA9, CHR 0xE2, CHR 0x80, CHR 0x8D, CHR 0xF0, CHR 0x9F, CHR 0x92, CHR 0xBC] @
       '' '' @
       [CHR 0xD0, CHR 0xA1, CHR 0xD0, CHR 0xB5, CHR 0xD0, CHR 0xB9, CHR 0xD1, CHR 0x87, CHR 0xD0, CHR 0xB0, CHR 0xD1, CHR 0x81] @
       '' '' @
       [CHR 0xD0, CHR 0xBD, CHR 0xD0, CHR 0xB5, CHR 0xD1, CHR 0x80, CHR 0xD0, CHR 0xB0, CHR 0xD0, CHR 0xB1, CHR 0xD0, CHR 0xBE, CHR 0xD1, CHR 0x87, CHR 0xD0, CHR 0xB5, CHR 0xD0, CHR 0xB5] @
       '' '' @
       [CHR 0xD0, CHR 0xB2, CHR 0xD1, CHR 0x80, CHR 0xD0, CHR 0xB5, CHR 0xD0, CHR 0xBC, CHR 0xD1, CHR 0x8F] @
       ''. '' @
       [CHR 0xD0, CHR 0x9E, CHR 0xD1, CHR 0x82, CHR 0xD0, CHR 0xB2, CHR 0xD0, CHR 0xB5, CHR 0xD1, CHR 0x87, CHR 0xD1, CHR 0x83] @
       '' '' @
       [CHR 0xD1, CHR 0x83, CHR 0xD1, CHR 0x82, CHR 0xD1, CHR 0x80, CHR 0xD0, CHR 0xBE, CHR 0xD0, CHR 0xBC] @
       ''.'')]"

text \<open>The two fallback texts of \<^verbatim>\<open>get_response\<close>: "unknown when" and "soon".\<close>

definition vacation_fallback :: string where
  "vacation_fallback =
      [CHR 0xD0, CHR 0xBD, CHR 0xD0, CHR 0xB5, CHR 0xD0, CHR 0xB8, CHR 0xD0, CHR 0xB7, CHR 0xD0, CHR 0xB2, CHR 0xD0, CHR 0xB5, CHR 0xD1, CHR 0x81, CHR 0xD1, CHR 0x82, CHR 0xD0, CHR 0xBD, CHR 0xD0, CHR 0xBE] @
      '' '' @
      [CHR 0xD0, CHR 0xBA, CHR 0xD0, CHR 0xBE, CHR 0xD0, CHR 0xB3, CHR 0xD0, CHR 0xB4, CHR 0xD0, CHR 0xB0]"

definition sick_fallback :: string where
  "sick_fallback =
      [CHR 0xD1, CHR 0x81, CHR 0xD0, CHR 0xBA, CHR 0xD0, CHR 0xBE, CHR 0xD1, CHR 0x80, CHR 0xD0, CHR 0xBE]"

section \<open>Template rendering\<close>

text \<open>
  \<^verbatim>\<open>template.format(name=value)\<close> for the replacement fields the catalogue uses: a plain
  keyword name between braces. \<^verbatim>\<open>{{\<close> and \<^verbatim>\<open>}}\<close> are the escaped braces, a brace that is
  neither escaped nor part of a field is a \<^verbatim>\<open>ValueError\<close>, a field naming no keyword
  argument is a \<^verbatim>\<open>KeyError\<close>. Positional fields, attribute and index access, conversions
  and format specifications occur in no template; the model answers \<open>NotModelled\<close> there.
\<close>

fun field_end :: "string \<Rightarrow> (string \<times> string) option" where
  "field_end [] = None"
| "field_end (c # cs) =
     (if c = CHR ''}'' then Some ([], cs)
      else (case field_end cs of None \<Rightarrow> None | Some (name, rest) \<Rightarrow> Some (c # name, rest)))"

definition plain_field :: "string \<Rightarrow> bool" where
  "plain_field name =
     (name \<noteq> [] \<and> list_all (\<lambda>c. c \<notin> set ''.[]!:{0123456789'') name)"

lemma field_end_shorter: "field_end cs = Some (name, rest) \<Longrightarrow> length rest < length cs"
  by (induction cs arbitrary: name rest) (auto split: if_splits option.splits)

function str_format :: "string \<Rightarrow> pyval dict \<Rightarrow> error + string" where
  "str_format [] kw = Inr []"
| "str_format (c # cs) kw =
     (if c = CHR ''{'' then
        (case cs of
           [] \<Rightarrow> Inl ValueError
         | d # ds \<Rightarrow>
             if d = CHR ''{'' then and_then (str_format ds kw) (\<lambda>s. Inr (c # s))
             else
               (case field_end cs of
                  None \<Rightarrow> Inl ValueError
                | Some (name, rest) \<Rightarrow>
                    if \<not> plain_field name then Inl NotModelled
                    else
                      (case map_of kw name of
                         None \<Rightarrow> Inl KeyError
                       | Some v \<Rightarrow> and_then (str_format rest kw) (\<lambda>s. Inr (py_str v @ s)))))
      else if c = CHR ''}'' then
        (case cs of
           [] \<Rightarrow> Inl ValueError
         | d # ds \<Rightarrow>
             if d = CHR ''}'' then and_then (str_format ds kw) (\<lambda>s. Inr (c # s))
             else Inl ValueError)
      else and_then (str_format cs kw) (\<lambda>s. Inr (c # s)))"
  by pat_completeness auto
termination
proof (relation "measure (\<lambda>(t, kw). length t)")
  fix c :: char and cs kw d ds p name rest v
  assume "cs = d # ds" and "field_end cs = Some p" and "(name, rest) = p"
  then have "length rest < length cs"
    using field_end_shorter [of cs name rest] by simp
  then show "((rest, kw), c # cs, kw) \<in> measure (\<lambda>(t, kw). length t)"
    by simp
qed simp_all

section \<open>The auto-reply engine\<close>

text \<open>\<^verbatim>\<open>self.responses[key]\<close>, returned as it is, and \<^verbatim>\<open>self.responses[key].format(name=value)\<close>.\<close>

definition response_text :: "string \<Rightarrow> error + pyval" where
  "response_text key = and_then (getitem responses key) (\<lambda>t. Inr (PyStr t))"

definition response_format :: "string \<Rightarrow> pyval dict \<Rightarrow> error + pyval" where
  "response_format key kw =
     and_then (getitem responses key) (\<lambda>t. and_then (str_format t kw) (\<lambda>s. Inr (PyStr s)))"

text \<open>\<^verbatim>\<open>params or {}\<close>: \<^verbatim>\<open>None\<close> becomes the empty dictionary (and so does an empty one).\<close>

definition or_empty :: "pyval dict option \<Rightarrow> pyval dict" where
  "or_empty params = (case params of None \<Rightarrow> [] | Some d \<Rightarrow> d)"

text \<open>
  \<^verbatim>\<open>AutoReplyManager.get_response(mode, status, params=None, message=None)\<close>. The result
  \<open>Inr PyNone\<close> is the method returning \<^verbatim>\<open>None\<close>: no automatic reply. The rules are tried in
  the order of the source; \<^verbatim>\<open>message\<close> is accepted and never read.
\<close>

definition get_response ::
  "clock \<Rightarrow> AutoReplyMode enum_arg \<Rightarrow> UserStatus enum_arg \<Rightarrow> pyval dict option \<Rightarrow> pyval
    \<Rightarrow> error + pyval" where
  "get_response clk mode status params message =
     (if mode = Member AutoReplyMode.OFF then Inr PyNone
      else
        let params = or_empty params in
        if mode = Member AutoReplyMode.CUSTOM \<and> truthy (dict_get params ''custom_message'' PyNone)
          then getitem params ''custom_message''
        else if status = Member UserStatus.VACATION then
          (let date = dict_get params ''vacation_end'' (PyStr vacation_fallback)
           in response_format ''vacation'' [(''date'', date)])
        else if status = Member UserStatus.SICK then
          (let date = dict_get params ''sick_until'' (PyStr sick_fallback)
           in response_format ''sick'' [(''date'', date)])
        else if status = Member UserStatus.BUSY then response_text ''busy''
        else if status = Member UserStatus.MEETING then response_text ''meeting''
        else if status = Member UserStatus.LUNCH then
          response_format ''lunch'' [(''time'', PyStr ''14:00'')]
        else if mode = Member AutoReplyMode.WORK_HOURS then
          and_then (now_in clk (dict_get params ''timezone'' (PyStr ''Europe/Moscow''))) (\<lambda>now.
            if weekday now \<ge> 5 then response_text ''weekend''
            else if hour now \<ge> 22 \<or> hour now < 9 then response_text ''night''
            else if 13 \<le> hour now \<and> hour now < 14 then
              response_format ''lunch'' [(''time'', PyStr ''14:00'')]
            else if 9 \<le> hour now \<and> hour now < 18 then Inr PyNone
            else response_text ''work_hours'')
        else if mode = Member AutoReplyMode.ALWAYS then response_text ''default''
        else Inr PyNone)"

text \<open>
  \<^verbatim>\<open>AutoReplyManager.should_auto_reply(mode, status, params=None)\<close>. Unlike
  \<^verbatim>\<open>get_response\<close> it does not replace a missing \<^verbatim>\<open>params\<close>: \<^verbatim>\<open>params.get\<close> on \<^verbatim>\<open>None\<close>
  raises \<^verbatim>\<open>AttributeError\<close>.
\<close>

definition should_auto_reply ::
  "clock \<Rightarrow> AutoReplyMode enum_arg \<Rightarrow> UserStatus enum_arg \<Rightarrow> pyval dict option
    \<Rightarrow> error + bool" where
  "should_auto_reply clk mode status params =
     (if mode = Member AutoReplyMode.OFF then Inr False
      else if status \<in>
          set [Member UserStatus.VACATION, Member UserStatus.SICK, Member UserStatus.MEETING]
        then Inr True
      else if mode = Member AutoReplyMode.ALWAYS then Inr True
      else if mode = Member AutoReplyMode.WORK_HOURS then
        (case params of
           None \<Rightarrow> Inl AttributeError
         | Some p \<Rightarrow>
             and_then (now_in clk (dict_get p ''timezone'' (PyStr ''Europe/Moscow''))) (\<lambda>now.
               if 9 \<le> hour now \<and> hour now < 18 \<and> weekday now < 5 then Inr False
               else Inr True))
      else if mode = Member AutoReplyMode.CUSTOM then Inr True
      else Inr False)"

section \<open>The caller\<close>

text \<open>
  \<^verbatim>\<open>MaryAssistantBot.check_auto_reply\<close>, from the user record that \<^verbatim>\<open>get_user_data\<close> hands
  it. The two conversions sit in one \<^verbatim>\<open>try\<close> whose bare \<^verbatim>\<open>except\<close> resets both values;
  \<^verbatim>\<open>user_data["timezone"]\<close> is outside it. The parameter dictionary always has the four keys:
  \<^verbatim>\<open>user_data.get(key)\<close> yields \<^verbatim>\<open>None\<close> for a missing key.
\<close>

definition check_auto_reply :: "clock \<Rightarrow> pyval dict \<Rightarrow> pyval \<Rightarrow> error + pyval" where
  "check_auto_reply clk user_data message =
     (let (mode, status) =
        (case and_then (getitem user_data ''autoreply_mode'') AutoReplyMode_of of
           Inl e \<Rightarrow> (AutoReplyMode.WORK_HOURS, UserStatus.AVAILABLE)
         | Inr m \<Rightarrow>
             (case and_then (getitem user_data ''status'') UserStatus_of of
                Inl e \<Rightarrow> (AutoReplyMode.WORK_HOURS, UserStatus.AVAILABLE)
              | Inr s \<Rightarrow> (m, s)))
      in
        and_then (getitem user_data ''timezone'') (\<lambda>tz.
          let params =
            [(''timezone'', tz),
             (''custom_message'', dict_get user_data ''custom_autoreply'' PyNone),
             (''vacation_end'', dict_get user_data ''vacation_end'' PyNone),
             (''sick_until'', dict_get user_data ''sick_until'' PyNone)]
          in
            and_then (should_auto_reply clk (Member mode) (Member status) (Some params)) (\<lambda>r.
              if \<not> r then Inr PyNone
              else get_response clk (Member mode) (Member status) (Some params) message)))"

section \<open>Facts about the modelled library operations\<close>

lemma and_then_Inr [simp]: "and_then (Inr x) f = f x"
  by (simp add: and_then_def)

lemma and_then_Inl [simp]: "and_then (Inl e) f = Inl e"
  by (simp add: and_then_def)

text \<open>Text without braces is copied as it is.\<close>

lemma str_format_literal:
  assumes "CHR ''{'' \<notin> set pre" and "CHR ''}'' \<notin> set pre"
  shows "str_format (pre @ t) kw = and_then (str_format t kw) (\<lambda>s. Inr (pre @ s))"
  using assms
proof (induction pre)
  case Nil
  show ?case by (cases "str_format t kw") simp_all
next
  case (Cons c pre)
  then have "c \<noteq> CHR ''{''" and "c \<noteq> CHR ''}''" by auto
  moreover have "str_format (pre @ t) kw = and_then (str_format t kw) (\<lambda>s. Inr (pre @ s))"
    using Cons by simp
  ultimately show ?case by (cases "str_format t kw") simp_all
qed

lemma field_end_name:
  "CHR ''}'' \<notin> set name \<Longrightarrow> field_end (name @ CHR ''}'' # t) = Some (name, t)"
  by (induction name) auto

text \<open>A replacement field is replaced by the text of the keyword argument it names.\<close>

lemma str_format_field:
  assumes "plain_field name" and "CHR ''}'' \<notin> set name"
  shows "str_format (CHR ''{'' # name @ CHR ''}'' # t) kw =
    (case map_of kw name of
       None \<Rightarrow> Inl KeyError
     | Some v \<Rightarrow> and_then (str_format t kw) (\<lambda>s. Inr (py_str v @ s)))"
proof (cases name)
  case Nil
  with assms(1) show ?thesis by (simp add: plain_field_def)
next
  case (Cons d ds)
  with assms(1) have d: "d \<noteq> CHR ''{''" by (simp add: plain_field_def)
  have "field_end (d # ds @ CHR ''}'' # t) = Some (name, t)"
    using field_end_name [OF assms(2), of t] Cons by simp
  with d assms(1) Cons show ?thesis by simp
qed

lemma str_format_one_field:
  assumes "CHR ''{'' \<notin> set pre" and "CHR ''}'' \<notin> set pre"
    and "CHR ''{'' \<notin> set post" and "CHR ''}'' \<notin> set post"
    and "plain_field name" and "CHR ''}'' \<notin> set name"
  shows "str_format (pre @ CHR ''{'' # name @ CHR ''}'' # post) [(name, v)]
    = Inr (pre @ py_str v @ post)"
proof -
  have "str_format post [(name, v)] = Inr post"
    using str_format_literal [OF assms(3,4), of "[]" "[(name, v)]"] by simp
  then have "str_format (CHR ''{'' # name @ CHR ''}'' # post) [(name, v)] = Inr (py_str v @ post)"
    using str_format_field [OF assms(5,6), of post "[(name, v)]"] by simp
  then show ?thesis
    using str_format_literal
      [OF assms(1,2), of "CHR ''{'' # name @ CHR ''}'' # post" "[(name, v)]"]
    by simp
qed

section \<open>Facts about the catalogue\<close>

lemma response_text_Some:
  "map_of responses key = Some t \<Longrightarrow> response_text key = Inr (PyStr t)"
  by (simp add: response_text_def getitem_def)

lemma catalogue_keys:
  "map fst responses = [''default'', ''work_hours'', ''busy'', ''meeting'', ''vacation'',
     ''sick'', ''lunch'', ''weekend'', ''night'']"
  by (simp add: responses_def)

lemma catalogue_entry:
  assumes "key \<in> set (map fst responses)"
  obtains t where "map_of responses key = Some t" and "response_text key = Inr (PyStr t)"
proof -
  from assms have "map_of responses key \<noteq> None"
    by (simp add: map_of_eq_None_iff)
  then obtain t where "map_of responses key = Some t" by blast
  with that response_text_Some show thesis by blast
qed

text \<open>A template with one replacement field and no other brace renders to the template with
  the field replaced.\<close>

lemma response_format_one_field:
  assumes "map_of responses key = Some (pre @ CHR ''{'' # name @ CHR ''}'' # post)"
    and "CHR ''{'' \<notin> set pre" and "CHR ''}'' \<notin> set pre"
    and "CHR ''{'' \<notin> set post" and "CHR ''}'' \<notin> set post"
    and "plain_field name" and "CHR ''}'' \<notin> set name"
  shows "response_format key [(name, v)] = Inr (PyStr (pre @ py_str v @ post))"
  using assms(1) str_format_one_field [OF assms(2-7), of v]
  by (simp add: response_format_def getitem_def)

text \<open>The three templates with a placeholder: the text before the opening brace, the field,
  the text after the closing brace.\<close>

lemma vacation_template:
  obtains pre post where "map_of responses ''vacation'' = Some (pre @ ''{date}'' @ post)"
    and "\<And>v. response_format ''vacation'' [(''date'', v)] = Inr (PyStr (pre @ py_str v @ post))"
proof -
  obtain t where t: "map_of responses ''vacation'' = Some t"
    by (simp add: responses_def)
  let ?pre = "takeWhile (\<lambda>c. c \<noteq> CHR ''{'') t"
  let ?post = "tl (dropWhile (\<lambda>c. c \<noteq> CHR ''}'') t)"
  from t have split: "?pre @ CHR ''{'' # ''date'' @ CHR ''}'' # ?post = t"
    by (auto simp add: responses_def)
  from t have free: "CHR ''{'' \<notin> set ?pre" "CHR ''}'' \<notin> set ?pre"
      "CHR ''{'' \<notin> set ?post" "CHR ''}'' \<notin> set ?post"
    by (auto simp add: responses_def)
  have field: "plain_field ''date''" "CHR ''}'' \<notin> set ''date''"
    by (simp_all add: plain_field_def)
  have whole: "map_of responses ''vacation'' = Some (?pre @ CHR ''{'' # ''date'' @ CHR ''}'' # ?post)"
    using t split by simp
  have "response_format ''vacation'' [(''date'', v)] = Inr (PyStr (?pre @ py_str v @ ?post))" for v
    by (rule response_format_one_field [OF whole free field])
  moreover from whole have "map_of responses ''vacation'' = Some (?pre @ ''{date}'' @ ?post)"
    by simp
  ultimately show thesis by (rule that [rotated])
qed

lemma sick_template:
  obtains pre post where "map_of responses ''sick'' = Some (pre @ ''{date}'' @ post)"
    and "\<And>v. response_format ''sick'' [(''date'', v)] = Inr (PyStr (pre @ py_str v @ post))"
proof -
  obtain t where t: "map_of responses ''sick'' = Some t"
    by (simp add: responses_def)
  let ?pre = "takeWhile (\<lambda>c. c \<noteq> CHR ''{'') t"
  let ?post = "tl (dropWhile (\<lambda>c. c \<noteq> CHR ''}'') t)"
  from t have split: "?pre @ CHR ''{'' # ''date'' @ CHR ''}'' # ?post = t"
    by (auto simp add: responses_def)
  from t have free: "CHR ''{'' \<notin> set ?pre" "CHR ''}'' \<notin> set ?pre"
      "CHR ''{'' \<notin> set ?post" "CHR ''}'' \<notin> set ?post"
    by (auto simp add: responses_def)
  have field: "plain_field ''date''" "CHR ''}'' \<notin> set ''date''"
    by (simp_all add: plain_field_def)
  have whole: "map_of responses ''sick'' = Some (?pre @ CHR ''{'' # ''date'' @ CHR ''}'' # ?post)"
    using t split by simp
  have "response_format ''sick'' [(''date'', v)] = Inr (PyStr (?pre @ py_str v @ ?post))" for v
    by (rule response_format_one_field [OF whole free field])
  moreover from whole have "map_of responses ''sick'' = Some (?pre @ ''{date}'' @ ?post)"
    by simp
  ultimately show thesis by (rule that [rotated])
qed

lemma lunch_template:
  obtains pre post where "map_of responses ''lunch'' = Some (pre @ ''{time}'' @ post)"
    and "\<And>v. response_format ''lunch'' [(''time'', v)] = Inr (PyStr (pre @ py_str v @ post))"
proof -
  obtain t where t: "map_of responses ''lunch'' = Some t"
    by (simp add: responses_def)
  let ?pre = "takeWhile (\<lambda>c. c \<noteq> CHR ''{'') t"
  let ?post = "tl (dropWhile (\<lambda>c. c \<noteq> CHR ''}'') t)"
  from t have split: "?pre @ CHR ''{'' # ''time'' @ CHR ''}'' # ?post = t"
    by (auto simp add: responses_def)
  from t have free: "CHR ''{'' \<notin> set ?pre" "CHR ''}'' \<notin> set ?pre"
      "CHR ''{'' \<notin> set ?post" "CHR ''}'' \<notin> set ?post"
    by (auto simp add: responses_def)
  have field: "plain_field ''time''" "CHR ''}'' \<notin> set ''time''"
    by (simp_all add: plain_field_def)
  have whole: "map_of responses ''lunch'' = Some (?pre @ CHR ''{'' # ''time'' @ CHR ''}'' # ?post)"
    using t split by simp
  have "response_format ''lunch'' [(''time'', v)] = Inr (PyStr (?pre @ py_str v @ ?post))" for v
    by (rule response_format_one_field [OF whole free field])
  moreover from whole have "map_of responses ''lunch'' = Some (?pre @ ''{time}'' @ ?post)"
    by simp
  ultimately show thesis by (rule that [rotated])
qed

section \<open>Facts about the engine\<close>

lemma now_in_error: "now_in clk v = Inl e \<Longrightarrow> e = UnknownTimeZoneError"
  by (cases v) (auto split: option.splits)

text \<open>The guard of the custom rule makes the following \<^verbatim>\<open>params["custom_message"]\<close> safe.\<close>

lemma getitem_truthy:
  "truthy (dict_get p key PyNone) \<Longrightarrow> getitem p key = Inr (dict_get p key PyNone)"
  by (cases "map_of p key") (simp_all add: dict_get_def getitem_def)

lemma response_text_total:
  assumes "key \<in> set (map fst responses)"
  shows "\<exists>t. response_text key = Inr (PyStr t)"
  using catalogue_entry [OF assms] by blast

lemma response_format_total:
  "\<exists>t. response_format ''vacation'' [(''date'', v)] = Inr (PyStr t)"
  "\<exists>t. response_format ''sick'' [(''date'', v)] = Inr (PyStr t)"
  "\<exists>t. response_format ''lunch'' [(''time'', v)] = Inr (PyStr t)"
  using vacation_template sick_template lunch_template by metis+

text \<open>The one exception \<^verbatim>\<open>get_response\<close> can raise is the time-zone lookup of the work-hours
  rule.\<close>

lemma get_response_error:
  assumes "get_response clk mode status params message = Inl e"
  shows "e = UnknownTimeZoneError \<and> mode = Member AutoReplyMode.WORK_HOURS"
proof -
  obtain t1 t2 t3 t4 t5 t6 where texts:
    "response_text ''default'' = Inr (PyStr t1)" "response_text ''work_hours'' = Inr (PyStr t2)"
    "response_text ''busy'' = Inr (PyStr t3)" "response_text ''meeting'' = Inr (PyStr t4)"
    "response_text ''weekend'' = Inr (PyStr t5)" "response_text ''night'' = Inr (PyStr t6)"
    using response_text_total by (simp add: catalogue_keys) metis
  obtain f1 f2 f3 where formats:
    "response_format ''vacation''
       [(''date'', dict_get (or_empty params) ''vacation_end'' (PyStr vacation_fallback))]
      = Inr (PyStr f1)"
    "response_format ''sick''
       [(''date'', dict_get (or_empty params) ''sick_until'' (PyStr sick_fallback))]
      = Inr (PyStr f2)"
    "response_format ''lunch'' [(''time'', PyStr ''14:00'')] = Inr (PyStr f3)"
    using response_format_total by metis
  show ?thesis
  proof (cases "now_in clk (dict_get (or_empty params) ''timezone'' (PyStr ''Europe/Moscow''))")
    case (Inl e')
    with assms texts formats now_in_error [OF Inl] show ?thesis
      by (auto simp add: get_response_def Let_def getitem_truthy split: if_splits)
  next
    case (Inr now)
    with assms texts formats show ?thesis
      by (auto simp add: get_response_def Let_def getitem_truthy split: if_splits)
  qed
qed

section \<open>Mode Off\<close>

text \<open>
  C3. Mode Off dominates everything: for every status (Vacation, Sick and Meeting included),
  every parameter dictionary (a missing one included) and every clock,
  \<^verbatim>\<open>should_auto_reply\<close> returns \<^verbatim>\<open>False\<close> and \<^verbatim>\<open>get_response\<close> returns \<^verbatim>\<open>None\<close>.
\<close>

theorem off_dominates:
  "should_auto_reply clk (Member AutoReplyMode.OFF) status params = Inr False \<and>
   get_response clk (Member AutoReplyMode.OFF) status params message = Inr PyNone"
  by (simp add: should_auto_reply_def get_response_def)

section \<open>Status override\<close>

text \<open>
  C4. For every mode other than Off (a foreign value included), every parameter dictionary
  and every clock: if the status is Vacation, Sick or Meeting then \<^verbatim>\<open>should_auto_reply\<close>
  returns \<^verbatim>\<open>True\<close>. The clock is not consulted, so the time of day plays no part.
\<close>

theorem status_override:
  assumes "mode \<noteq> Member AutoReplyMode.OFF"
    and "status \<in> {Member UserStatus.VACATION, Member UserStatus.SICK, Member UserStatus.MEETING}"
  shows "should_auto_reply clk mode status params = Inr True"
  using assms by (auto simp add: should_auto_reply_def)

theorem status_override_witness:
  "should_auto_reply [(''Europe/Moscow'', \<lparr>weekday = 0, hour = 10\<rparr>)]
     (Member AutoReplyMode.WORK_HOURS) (Member UserStatus.MEETING)
     (Some [(''timezone'', PyStr ''Europe/Moscow'')]) = Inr True"
  using status_override
    [of "Member AutoReplyMode.WORK_HOURS" "Member UserStatus.MEETING"
      "[(''Europe/Moscow'', \<lparr>weekday = 0, hour = 10\<rparr>)]"
      "Some [(''timezone'', PyStr ''Europe/Moscow'')]"]
  by simp

section \<open>Work-hours mode\<close>

text \<open>
  C1, as the claim states it, fails. On a Monday at 10:00 in work-hours mode with status Busy,
  \<^verbatim>\<open>should_auto_reply\<close> returns \<^verbatim>\<open>False\<close>, but \<^verbatim>\<open>get_response\<close> does not return \<^verbatim>\<open>None\<close>:
  its status rules come before the work-hours rule and answer with the busy text. With status
  Available at 13:00 the lunch rule of the work-hours branch, tried before the working-hours
  rule, answers as well.
\<close>

theorem work_hours_weekday_silence_counterexample:
  "should_auto_reply [(''Europe/Moscow'', \<lparr>weekday = 0, hour = 10\<rparr>)]
     (Member AutoReplyMode.WORK_HOURS) (Member UserStatus.BUSY)
     (Some [(''timezone'', PyStr ''Europe/Moscow'')]) = Inr False \<and>
   get_response [(''Europe/Moscow'', \<lparr>weekday = 0, hour = 10\<rparr>)]
     (Member AutoReplyMode.WORK_HOURS) (Member UserStatus.BUSY)
     (Some [(''timezone'', PyStr ''Europe/Moscow'')]) PyNone \<noteq> Inr PyNone \<and>
   get_response [(''Europe/Moscow'', \<lparr>weekday = 0, hour = 13\<rparr>)]
     (Member AutoReplyMode.WORK_HOURS) (Member UserStatus.AVAILABLE)
     (Some [(''timezone'', PyStr ''Europe/Moscow'')]) PyNone \<noteq> Inr PyNone"
proof -
  obtain busy where "response_text ''busy'' = Inr (PyStr busy)"
    using response_text_total [of "''busy''"] by (auto simp add: catalogue_keys)
  moreover obtain lunch where "response_format ''lunch'' [(''time'', PyStr ''14:00'')] = Inr (PyStr lunch)"
    using response_format_total(3) by blast
  ultimately show ?thesis
    by (simp add: should_auto_reply_def get_response_def Let_def or_empty_def dict_get_def)
qed

text \<open>
  C1, amended. In work-hours mode, with a status outside Vacation, Sick and Meeting, on a
  weekday with local hour in [9,18) in the zone of \<^verbatim>\<open>params\<close>: \<^verbatim>\<open>should_auto_reply\<close>
  returns \<^verbatim>\<open>False\<close> for every such status. \<^verbatim>\<open>get_response\<close> returns the busy text for
  status Busy and the lunch text with time 14:00 for status Lunch; for any other such status
  it returns the lunch text with time 14:00 when the hour is 13 and \<^verbatim>\<open>None\<close> otherwise.
\<close>

theorem work_hours_weekday_silence:
  assumes "now_in clk (dict_get p ''timezone'' (PyStr ''Europe/Moscow'')) = Inr now"
    and "weekday now < 5" and "9 \<le> hour now" and "hour now < 18"
    and "status \<notin> {Member UserStatus.VACATION, Member UserStatus.SICK, Member UserStatus.MEETING}"
  shows "\<exists>busy pre post.
    map_of responses ''busy'' = Some busy \<and>
    map_of responses ''lunch'' = Some (pre @ ''{time}'' @ post) \<and>
    should_auto_reply clk (Member AutoReplyMode.WORK_HOURS) status (Some p) = Inr False \<and>
    (status = Member UserStatus.BUSY \<longrightarrow>
       get_response clk (Member AutoReplyMode.WORK_HOURS) status (Some p) message
         = Inr (PyStr busy)) \<and>
    (status = Member UserStatus.LUNCH \<longrightarrow>
       get_response clk (Member AutoReplyMode.WORK_HOURS) status (Some p) message
         = Inr (PyStr (pre @ ''14:00'' @ post))) \<and>
    (status \<notin> {Member UserStatus.BUSY, Member UserStatus.LUNCH} \<and> hour now = 13 \<longrightarrow>
       get_response clk (Member AutoReplyMode.WORK_HOURS) status (Some p) message
         = Inr (PyStr (pre @ ''14:00'' @ post))) \<and>
    (status \<notin> {Member UserStatus.BUSY, Member UserStatus.LUNCH} \<and> hour now \<noteq> 13 \<longrightarrow>
       get_response clk (Member AutoReplyMode.WORK_HOURS) status (Some p) message
         = Inr PyNone)"
proof -
  obtain busy where busy: "map_of responses ''busy'' = Some busy"
      and busy_text: "response_text ''busy'' = Inr (PyStr busy)"
    by (rule catalogue_entry [of "''busy''"]) (simp add: catalogue_keys)
  obtain pre post where lunch: "map_of responses ''lunch'' = Some (pre @ ''{time}'' @ post)"
      and lunch_text: "\<And>v. response_format ''lunch'' [(''time'', v)]
        = Inr (PyStr (pre @ py_str v @ post))"
    by (rule lunch_template) blast
  have silent: "should_auto_reply clk (Member AutoReplyMode.WORK_HOURS) status (Some p) = Inr False"
    using assms by (simp add: should_auto_reply_def)
  have on_busy: "get_response clk (Member AutoReplyMode.WORK_HOURS) status (Some p) message
      = Inr (PyStr busy)" if "status = Member UserStatus.BUSY"
    using that busy_text by (simp add: get_response_def Let_def)
  have on_lunch: "get_response clk (Member AutoReplyMode.WORK_HOURS) status (Some p) message
      = Inr (PyStr (pre @ ''14:00'' @ post))" if "status = Member UserStatus.LUNCH"
    using that lunch_text [of "PyStr ''14:00''"] by (simp add: get_response_def Let_def)
  have at_13: "get_response clk (Member AutoReplyMode.WORK_HOURS) status (Some p) message
      = Inr (PyStr (pre @ ''14:00'' @ post))"
    if "status \<notin> {Member UserStatus.BUSY, Member UserStatus.LUNCH}" and "hour now = 13"
    using that assms lunch_text [of "PyStr ''14:00''"]
    by (simp add: get_response_def Let_def or_empty_def)
  have otherwise: "get_response clk (Member AutoReplyMode.WORK_HOURS) status (Some p) message
      = Inr PyNone"
    if "status \<notin> {Member UserStatus.BUSY, Member UserStatus.LUNCH}" and "hour now \<noteq> 13"
    using that assms by (auto simp add: get_response_def Let_def or_empty_def)
  from busy lunch silent on_busy on_lunch at_13 otherwise show ?thesis by blast
qed

theorem work_hours_weekday_silence_witness:
  "should_auto_reply [(''Europe/Moscow'', \<lparr>weekday = 0, hour = 10\<rparr>)]
     (Member AutoReplyMode.WORK_HOURS) (Member UserStatus.AVAILABLE)
     (Some [(''timezone'', PyStr ''Europe/Moscow'')]) = Inr False \<and>
   get_response [(''Europe/Moscow'', \<lparr>weekday = 0, hour = 10\<rparr>)]
     (Member AutoReplyMode.WORK_HOURS) (Member UserStatus.AVAILABLE)
     (Some [(''timezone'', PyStr ''Europe/Moscow'')]) PyNone = Inr PyNone"
proof -
  have "now_in [(''Europe/Moscow'', \<lparr>weekday = 0, hour = 10\<rparr>)]
      (dict_get [(''timezone'', PyStr ''Europe/Moscow'')] ''timezone'' (PyStr ''Europe/Moscow''))
    = Inr \<lparr>weekday = 0, hour = 10\<rparr>"
    by (simp add: dict_get_def)
  from work_hours_weekday_silence [OF this, of "Member UserStatus.AVAILABLE" PyNone]
  show ?thesis by auto
qed

text \<open>
  C2. In work-hours mode with status Available, once the current time is resolved in the zone
  of \<^verbatim>\<open>params\<close> (\<^verbatim>\<open>Europe/Moscow\<close> when it names none), \<^verbatim>\<open>get_response\<close> answers by day
  and hour: Saturday and Sunday give the weekend text; on the other days the hours [22,24)
  and [0,9) give the night text, the hour 13 the lunch text with time 14:00, the other hours
  of [9,18) \<^verbatim>\<open>None\<close>, and the hours [18,22) the work-hours text.
\<close>

theorem work_hours_bands:
  assumes "now_in clk (dict_get (or_empty params) ''timezone'' (PyStr ''Europe/Moscow''))
    = Inr now"
  shows "\<exists>weekend night work pre post.
    map_of responses ''weekend'' = Some weekend \<and>
    map_of responses ''night'' = Some night \<and>
    map_of responses ''work_hours'' = Some work \<and>
    map_of responses ''lunch'' = Some (pre @ ''{time}'' @ post) \<and>
    (weekday now = 5 \<or> weekday now = 6 \<longrightarrow>
       get_response clk (Member AutoReplyMode.WORK_HOURS) (Member UserStatus.AVAILABLE) params
         message = Inr (PyStr weekend)) \<and>
    (weekday now < 5 \<and> (22 \<le> hour now \<and> hour now < 24 \<or> hour now < 9) \<longrightarrow>
       get_response clk (Member AutoReplyMode.WORK_HOURS) (Member UserStatus.AVAILABLE) params
         message = Inr (PyStr night)) \<and>
    (weekday now < 5 \<and> 13 \<le> hour now \<and> hour now < 14 \<longrightarrow>
       get_response clk (Member AutoReplyMode.WORK_HOURS) (Member UserStatus.AVAILABLE) params
         message = Inr (PyStr (pre @ ''14:00'' @ post))) \<and>
    (weekday now < 5 \<and> 9 \<le> hour now \<and> hour now < 18 \<and> hour now \<noteq> 13 \<longrightarrow>
       get_response clk (Member AutoReplyMode.WORK_HOURS) (Member UserStatus.AVAILABLE) params
         message = Inr PyNone) \<and>
    (weekday now < 5 \<and> 18 \<le> hour now \<and> hour now < 22 \<longrightarrow>
       get_response clk (Member AutoReplyMode.WORK_HOURS) (Member UserStatus.AVAILABLE) params
         message = Inr (PyStr work))"
proof -
  let ?r = "get_response clk (Member AutoReplyMode.WORK_HOURS) (Member UserStatus.AVAILABLE)
    params message"
  obtain weekend where weekend: "map_of responses ''weekend'' = Some weekend"
      and weekend_text: "response_text ''weekend'' = Inr (PyStr weekend)"
    by (rule catalogue_entry [of "''weekend''"]) (simp add: catalogue_keys)
  obtain night where night: "map_of responses ''night'' = Some night"
      and night_text: "response_text ''night'' = Inr (PyStr night)"
    by (rule catalogue_entry [of "''night''"]) (simp add: catalogue_keys)
  obtain work where work: "map_of responses ''work_hours'' = Some work"
      and work_text: "response_text ''work_hours'' = Inr (PyStr work)"
    by (rule catalogue_entry [of "''work_hours''"]) (simp add: catalogue_keys)
  obtain pre post where lunch: "map_of responses ''lunch'' = Some (pre @ ''{time}'' @ post)"
      and lunch_text: "\<And>v. response_format ''lunch'' [(''time'', v)]
        = Inr (PyStr (pre @ py_str v @ post))"
    by (rule lunch_template) blast
  have branch: "?r =
     (if weekday now \<ge> 5 then Inr (PyStr weekend)
      else if hour now \<ge> 22 \<or> hour now < 9 then Inr (PyStr night)
      else if 13 \<le> hour now \<and> hour now < 14 then Inr (PyStr (pre @ ''14:00'' @ post))
      else if 9 \<le> hour now \<and> hour now < 18 then Inr PyNone
      else Inr (PyStr work))"
    using assms weekend_text night_text work_text lunch_text [of "PyStr ''14:00''"]
    by (simp add: get_response_def Let_def)
  have "?r = Inr (PyStr weekend)" if "weekday now = 5 \<or> weekday now = 6"
    using that by (auto simp add: branch)
  moreover have "?r = Inr (PyStr night)"
    if "weekday now < 5 \<and> (22 \<le> hour now \<and> hour now < 24 \<or> hour now < 9)"
    using that by (auto simp add: branch)
  moreover have "?r = Inr (PyStr (pre @ ''14:00'' @ post))"
    if "weekday now < 5 \<and> 13 \<le> hour now \<and> hour now < 14"
    using that by (simp add: branch)
  moreover have "?r = Inr PyNone"
    if "weekday now < 5 \<and> 9 \<le> hour now \<and> hour now < 18 \<and> hour now \<noteq> 13"
    using that by (simp add: branch)
  moreover have "?r = Inr (PyStr work)"
    if "weekday now < 5 \<and> 18 \<le> hour now \<and> hour now < 22"
    using that by (simp add: branch)
  ultimately show ?thesis
    using weekend night work lunch by blast
qed

theorem work_hours_bands_witness:
  "\<exists>work. map_of responses ''work_hours'' = Some work \<and>
     get_response [(''Europe/Moscow'', \<lparr>weekday = 0, hour = 20\<rparr>)]
       (Member AutoReplyMode.WORK_HOURS) (Member UserStatus.AVAILABLE)
       (Some [(''timezone'', PyStr ''Europe/Moscow'')]) PyNone = Inr (PyStr work)"
proof -
  have "now_in [(''Europe/Moscow'', \<lparr>weekday = 0, hour = 20\<rparr>)]
      (dict_get (or_empty (Some [(''timezone'', PyStr ''Europe/Moscow'')])) ''timezone''
        (PyStr ''Europe/Moscow''))
    = Inr \<lparr>weekday = 0, hour = 20\<rparr>"
    by (simp add: dict_get_def or_empty_def)
  from work_hours_bands [OF this, of PyNone]
  show ?thesis by auto
qed

section \<open>A missing parameter dictionary\<close>

text \<open>
  C10. The two methods treat an omitted \<^verbatim>\<open>params\<close> differently. In work-hours mode with a
  status outside Vacation, Sick and Meeting, \<^verbatim>\<open>should_auto_reply\<close> reaches \<^verbatim>\<open>params.get\<close>
  on \<^verbatim>\<open>None\<close> and raises \<^verbatim>\<open>AttributeError\<close> instead of returning a boolean.
  \<^verbatim>\<open>get_response\<close> replaces \<^verbatim>\<open>None\<close> by the empty dictionary first: it answers as for an
  empty dictionary and raises \<^verbatim>\<open>AttributeError\<close> on no input.
\<close>

theorem params_none_asymmetry:
  "(status \<notin> {Member UserStatus.VACATION, Member UserStatus.SICK, Member UserStatus.MEETING}
      \<longrightarrow> should_auto_reply clk (Member AutoReplyMode.WORK_HOURS) status None
            = Inl AttributeError) \<and>
   get_response clk mode status None message = get_response clk mode status (Some []) message \<and>
   get_response clk mode status params message \<noteq> Inl AttributeError"
proof (intro conjI impI)
  assume "status \<notin> {Member UserStatus.VACATION, Member UserStatus.SICK, Member UserStatus.MEETING}"
  then show "should_auto_reply clk (Member AutoReplyMode.WORK_HOURS) status None
      = Inl AttributeError"
    by (simp add: should_auto_reply_def)
next
  show "get_response clk mode status None message = get_response clk mode status (Some []) message"
    by (simp add: get_response_def Let_def or_empty_def)
next
  show "get_response clk mode status params message \<noteq> Inl AttributeError"
    using get_response_error [of clk mode status params message AttributeError] by auto
qed

theorem params_none_asymmetry_witness:
  "should_auto_reply [(''Europe/Moscow'', \<lparr>weekday = 0, hour = 20\<rparr>)]
     (Member AutoReplyMode.WORK_HOURS) (Member UserStatus.AVAILABLE) None = Inl AttributeError \<and>
   get_response [(''Europe/Moscow'', \<lparr>weekday = 0, hour = 20\<rparr>)]
     (Member AutoReplyMode.WORK_HOURS) (Member UserStatus.AVAILABLE) None PyNone
     \<noteq> Inl AttributeError"
proof -
  have "Member UserStatus.AVAILABLE
      \<notin> {Member UserStatus.VACATION, Member UserStatus.SICK, Member UserStatus.MEETING}"
    by simp
  with params_none_asymmetry
    [of "Member UserStatus.AVAILABLE" "[(''Europe/Moscow'', \<lparr>weekday = 0, hour = 20\<rparr>)]"
      "Member AutoReplyMode.WORK_HOURS" PyNone None]
  show ?thesis by blast
qed

section \<open>The custom message\<close>

text \<open>
  C5. When the mode is Custom and \<^verbatim>\<open>custom_message\<close> is present, which the source tests as
  \<^verbatim>\<open>params.get("custom_message")\<close> being true (a text that is not empty), \<^verbatim>\<open>get_response\<close>
  returns exactly that text, for every status (Vacation, Sick, Busy, Meeting and Lunch
  included) and every clock: the custom rule comes before the status rules.
\<close>

theorem custom_message_verbatim:
  assumes "map_of p ''custom_message'' = Some (PyStr text)" and "text \<noteq> []"
  shows "get_response clk (Member AutoReplyMode.CUSTOM) status (Some p) message
    = Inr (PyStr text)"
  using assms by (simp add: get_response_def Let_def or_empty_def dict_get_def getitem_def)

theorem custom_message_verbatim_witness:
  "get_response [] (Member AutoReplyMode.CUSTOM) (Member UserStatus.VACATION)
     (Some [(''custom_message'', PyStr ''Back in 5''), (''vacation_end'', PyStr ''25.01'')]) PyNone
   = Inr (PyStr ''Back in 5'')"
  using custom_message_verbatim
    [of "[(''custom_message'', PyStr ''Back in 5''), (''vacation_end'', PyStr ''25.01'')]"
      "''Back in 5''" "[]" "Member UserStatus.VACATION" PyNone]
  by simp

section \<open>Missing end dates\<close>

text \<open>
  What the vacation and the sick rule render. With status Vacation or Sick \<^verbatim>\<open>get_response\<close>
  returns normally for every mode, dictionary and clock. Where the rule is reached (the mode
  is not Off, and not Custom with a message), a dictionary without the key gives the template
  with the fallback text in place of \<^verbatim>\<open>{date}\<close>, and a dictionary holding a text under the key
  gives the template with that text.
\<close>

lemma end_date_rendering:
  "\<exists>vpre vpost spre spost.
     map_of responses ''vacation'' = Some (vpre @ ''{date}'' @ vpost) \<and>
     map_of responses ''sick'' = Some (spre @ ''{date}'' @ spost) \<and>
     (status \<in> {Member UserStatus.VACATION, Member UserStatus.SICK} \<longrightarrow>
        (\<exists>r. get_response clk mode status params message = Inr r)) \<and>
     (mode \<noteq> Member AutoReplyMode.OFF \<and>
      \<not> (mode = Member AutoReplyMode.CUSTOM \<and>
           truthy (dict_get (or_empty params) ''custom_message'' PyNone)) \<longrightarrow>
        (map_of (or_empty params) ''vacation_end'' = None \<longrightarrow>
           get_response clk mode (Member UserStatus.VACATION) params message
             = Inr (PyStr (vpre @ vacation_fallback @ vpost))) \<and>
        (\<forall>d. map_of (or_empty params) ''vacation_end'' = Some (PyStr d) \<longrightarrow>
           get_response clk mode (Member UserStatus.VACATION) params message
             = Inr (PyStr (vpre @ d @ vpost))) \<and>
        (map_of (or_empty params) ''sick_until'' = None \<longrightarrow>
           get_response clk mode (Member UserStatus.SICK) params message
             = Inr (PyStr (spre @ sick_fallback @ spost))) \<and>
        (\<forall>d. map_of (or_empty params) ''sick_until'' = Some (PyStr d) \<longrightarrow>
           get_response clk mode (Member UserStatus.SICK) params message
             = Inr (PyStr (spre @ d @ spost))))"
proof -
  obtain vpre vpost where vacation: "map_of responses ''vacation'' = Some (vpre @ ''{date}'' @ vpost)"
      and vacation_text: "\<And>v. response_format ''vacation'' [(''date'', v)]
        = Inr (PyStr (vpre @ py_str v @ vpost))"
    by (rule vacation_template) blast
  obtain spre spost where sick: "map_of responses ''sick'' = Some (spre @ ''{date}'' @ spost)"
      and sick_text: "\<And>v. response_format ''sick'' [(''date'', v)]
        = Inr (PyStr (spre @ py_str v @ spost))"
    by (rule sick_template) blast
  have returns: "\<exists>r. get_response clk mode status params message = Inr r"
    if "status \<in> {Member UserStatus.VACATION, Member UserStatus.SICK}"
  proof (cases "get_response clk mode status params message")
    case (Inl e)
    then have "mode = Member AutoReplyMode.WORK_HOURS"
      using get_response_error by blast
    with that Inl vacation_text sick_text show ?thesis
      by (auto simp add: get_response_def Let_def)
  next
    case (Inr r)
    then show ?thesis by blast
  qed
  have rendered:
    "(map_of (or_empty params) ''vacation_end'' = None \<longrightarrow>
       get_response clk mode (Member UserStatus.VACATION) params message
         = Inr (PyStr (vpre @ vacation_fallback @ vpost))) \<and>
     (\<forall>d. map_of (or_empty params) ''vacation_end'' = Some (PyStr d) \<longrightarrow>
       get_response clk mode (Member UserStatus.VACATION) params message
         = Inr (PyStr (vpre @ d @ vpost))) \<and>
     (map_of (or_empty params) ''sick_until'' = None \<longrightarrow>
       get_response clk mode (Member UserStatus.SICK) params message
         = Inr (PyStr (spre @ sick_fallback @ spost))) \<and>
     (\<forall>d. map_of (or_empty params) ''sick_until'' = Some (PyStr d) \<longrightarrow>
       get_response clk mode (Member UserStatus.SICK) params message
         = Inr (PyStr (spre @ d @ spost)))"
    if "mode \<noteq> Member AutoReplyMode.OFF \<and>
      \<not> (mode = Member AutoReplyMode.CUSTOM \<and>
           truthy (dict_get (or_empty params) ''custom_message'' PyNone))"
    using that vacation_text sick_text
    by (auto simp add: get_response_def Let_def dict_get_def)
  from vacation sick returns rendered show ?thesis
    by (intro exI [of _ vpre] exI [of _ vpost] exI [of _ spre] exI [of _ spost]) simp
qed

text \<open>
  C6. The fallback text is what the source means to show for a missing end date:
  \<^verbatim>\<open>params.get("vacation_end", fallback)\<close>. It misses the case the program has. A user record
  holds a missing end date as \<^verbatim>\<open>None\<close>, and \<^verbatim>\<open>check_auto_reply\<close> passes the key with that
  \<^verbatim>\<open>None\<close>; the default of \<^verbatim>\<open>get\<close> stands in for a missing key only. On the dictionary that
  \<^verbatim>\<open>check_auto_reply\<close> builds for a user with no end dates, in mode Always,
  \<^verbatim>\<open>get_response\<close> does not raise, but with status Vacation it returns the vacation template
  with the text \<^verbatim>\<open>None\<close> in place of \<^verbatim>\<open>{date}\<close>, not with the fallback text, and with status
  Sick the sick template with the text \<^verbatim>\<open>None\<close>.
\<close>

theorem stored_none_misses_fallback:
  "\<exists>vpre vpost spre spost.
     map_of responses ''vacation'' = Some (vpre @ ''{date}'' @ vpost) \<and>
     map_of responses ''sick'' = Some (spre @ ''{date}'' @ spost) \<and>
     get_response [] (Member AutoReplyMode.ALWAYS) (Member UserStatus.VACATION)
       (Some [(''timezone'', PyStr ''Europe/Moscow''), (''custom_message'', PyNone),
          (''vacation_end'', PyNone), (''sick_until'', PyNone)]) PyNone
       = Inr (PyStr (vpre @ ''None'' @ vpost)) \<and>
     get_response [] (Member AutoReplyMode.ALWAYS) (Member UserStatus.VACATION)
       (Some [(''timezone'', PyStr ''Europe/Moscow''), (''custom_message'', PyNone),
          (''vacation_end'', PyNone), (''sick_until'', PyNone)]) PyNone
       \<noteq> Inr (PyStr (vpre @ vacation_fallback @ vpost)) \<and>
     get_response [] (Member AutoReplyMode.ALWAYS) (Member UserStatus.SICK)
       (Some [(''timezone'', PyStr ''Europe/Moscow''), (''custom_message'', PyNone),
          (''vacation_end'', PyNone), (''sick_until'', PyNone)]) PyNone
       = Inr (PyStr (spre @ ''None'' @ spost)) \<and>
     get_response [] (Member AutoReplyMode.ALWAYS) (Member UserStatus.SICK)
       (Some [(''timezone'', PyStr ''Europe/Moscow''), (''custom_message'', PyNone),
          (''vacation_end'', PyNone), (''sick_until'', PyNone)]) PyNone
       \<noteq> Inr (PyStr (spre @ sick_fallback @ spost))"
proof -
  obtain vpre vpost where vacation: "map_of responses ''vacation'' = Some (vpre @ ''{date}'' @ vpost)"
      and vacation_text: "\<And>v. response_format ''vacation'' [(''date'', v)]
        = Inr (PyStr (vpre @ py_str v @ vpost))"
    by (rule vacation_template) blast
  obtain spre spost where sick: "map_of responses ''sick'' = Some (spre @ ''{date}'' @ spost)"
      and sick_text: "\<And>v. response_format ''sick'' [(''date'', v)]
        = Inr (PyStr (spre @ py_str v @ spost))"
    by (rule sick_template) blast
  have on_vacation:
    "get_response [] (Member AutoReplyMode.ALWAYS) (Member UserStatus.VACATION)
       (Some [(''timezone'', PyStr ''Europe/Moscow''), (''custom_message'', PyNone),
          (''vacation_end'', PyNone), (''sick_until'', PyNone)]) PyNone
     = Inr (PyStr (vpre @ ''None'' @ vpost))"
    using vacation_text [of PyNone]
    by (simp add: get_response_def Let_def or_empty_def dict_get_def)
  have on_sick:
    "get_response [] (Member AutoReplyMode.ALWAYS) (Member UserStatus.SICK)
       (Some [(''timezone'', PyStr ''Europe/Moscow''), (''custom_message'', PyNone),
          (''vacation_end'', PyNone), (''sick_until'', PyNone)]) PyNone
     = Inr (PyStr (spre @ ''None'' @ spost))"
    using sick_text [of PyNone]
    by (simp add: get_response_def Let_def or_empty_def dict_get_def)
  have differ: "vpre @ ''None'' @ vpost \<noteq> vpre @ vacation_fallback @ vpost"
      "spre @ ''None'' @ spost \<noteq> spre @ sick_fallback @ spost"
    by (simp_all add: vacation_fallback_def sick_fallback_def)
  show ?thesis
    by (rule exI [of _ vpre], rule exI [of _ vpost], rule exI [of _ spre], rule exI [of _ spost])
      (use vacation sick on_vacation on_sick differ in simp)
qed

text \<open>
  C9. \<^verbatim>\<open>check_auto_reply\<close> always puts the keys \<^verbatim>\<open>vacation_end\<close> and \<^verbatim>\<open>sick_until\<close> into the
  dictionary it builds, with \<^verbatim>\<open>None\<close> when the user record has no end date, and the fallback
  of \<^verbatim>\<open>params.get\<close> stands in for a missing key only. So for a user whose status is Vacation
  (or Sick) with no stored end date, whenever the vacation (or sick) rule is reached, the
  reply is the template with the text \<^verbatim>\<open>None\<close> in place of \<^verbatim>\<open>{date}\<close>, not with the fallback
  text.
\<close>

theorem check_auto_reply_renders_None:
  assumes "map_of user_data ''autoreply_mode'' = Some mode_value"
    and "AutoReplyMode_of mode_value = Inr mode"
    and "mode \<noteq> AutoReplyMode.OFF"
    and "\<not> (mode = AutoReplyMode.CUSTOM \<and> truthy (dict_get user_data ''custom_autoreply'' PyNone))"
    and "map_of user_data ''timezone'' = Some tz"
  shows "\<exists>vpre vpost spre spost.
     map_of responses ''vacation'' = Some (vpre @ ''{date}'' @ vpost) \<and>
     map_of responses ''sick'' = Some (spre @ ''{date}'' @ spost) \<and>
     (map_of user_data ''status'' = Some (PyStr ''vacation'') \<and>
      dict_get user_data ''vacation_end'' PyNone = PyNone \<longrightarrow>
        check_auto_reply clk user_data message = Inr (PyStr (vpre @ ''None'' @ vpost)) \<and>
        check_auto_reply clk user_data message
          \<noteq> Inr (PyStr (vpre @ vacation_fallback @ vpost))) \<and>
     (map_of user_data ''status'' = Some (PyStr ''sick'') \<and>
      dict_get user_data ''sick_until'' PyNone = PyNone \<longrightarrow>
        check_auto_reply clk user_data message = Inr (PyStr (spre @ ''None'' @ spost)) \<and>
        check_auto_reply clk user_data message
          \<noteq> Inr (PyStr (spre @ sick_fallback @ spost)))"
proof -
  obtain vpre vpost where vacation: "map_of responses ''vacation'' = Some (vpre @ ''{date}'' @ vpost)"
      and vacation_text: "\<And>v. response_format ''vacation'' [(''date'', v)]
        = Inr (PyStr (vpre @ py_str v @ vpost))"
    by (rule vacation_template) blast
  obtain spre spost where sick: "map_of responses ''sick'' = Some (spre @ ''{date}'' @ spost)"
      and sick_text: "\<And>v. response_format ''sick'' [(''date'', v)]
        = Inr (PyStr (spre @ py_str v @ spost))"
    by (rule sick_template) blast
  have mode: "and_then (getitem user_data ''autoreply_mode'') AutoReplyMode_of = Inr mode"
    using assms(1,2) by (simp add: getitem_def)
  have tz: "getitem user_data ''timezone'' = Inr tz"
    using assms(5) by (simp add: getitem_def)
  have on_vacation: "check_auto_reply clk user_data message = Inr (PyStr (vpre @ ''None'' @ vpost))"
    if "map_of user_data ''status'' = Some (PyStr ''vacation'')"
      and "dict_get user_data ''vacation_end'' PyNone = PyNone"
  proof -
    have "and_then (getitem user_data ''status'') UserStatus_of = Inr UserStatus.VACATION"
      using that(1) by (simp add: getitem_def UserStatus_of_def)
    with mode tz that(2) assms(3,4) vacation_text [of PyNone] show ?thesis
      by (auto simp add: check_auto_reply_def should_auto_reply_def get_response_def Let_def
          or_empty_def dict_get_def)
  qed
  have on_sick: "check_auto_reply clk user_data message = Inr (PyStr (spre @ ''None'' @ spost))"
    if "map_of user_data ''status'' = Some (PyStr ''sick'')"
      and "dict_get user_data ''sick_until'' PyNone = PyNone"
  proof -
    have "and_then (getitem user_data ''status'') UserStatus_of = Inr UserStatus.SICK"
      using that(1) by (simp add: getitem_def UserStatus_of_def)
    with mode tz that(2) assms(3,4) sick_text [of PyNone] show ?thesis
      by (auto simp add: check_auto_reply_def should_auto_reply_def get_response_def Let_def
          or_empty_def dict_get_def)
  qed
  have "vpre @ ''None'' @ vpost \<noteq> vpre @ vacation_fallback @ vpost"
    and "spre @ ''None'' @ spost \<noteq> spre @ sick_fallback @ spost"
    by (simp_all add: vacation_fallback_def sick_fallback_def)
  with vacation sick on_vacation on_sick show ?thesis
    by (intro exI [of _ vpre] exI [of _ vpost] exI [of _ spre] exI [of _ spost]) simp
qed

theorem check_auto_reply_renders_None_witness:
  "\<exists>pre post. map_of responses ''vacation'' = Some (pre @ ''{date}'' @ post) \<and>
     check_auto_reply []
       [(''name'', PyStr ''''), (''timezone'', PyStr ''Europe/Moscow''),
        (''autoreply_mode'', PyStr ''vacation''), (''status'', PyStr ''vacation''),
        (''vacation_start'', PyNone), (''vacation_end'', PyNone), (''sick_until'', PyNone)]
       (PyStr ''hello'')
     = Inr (PyStr (pre @ ''None'' @ post))"
proof -
  have "AutoReplyMode_of (PyStr ''vacation'') = Inr AutoReplyMode.VACATION"
    by (simp add: AutoReplyMode_of_def)
  from check_auto_reply_renders_None
    [of "[(''name'', PyStr ''''), (''timezone'', PyStr ''Europe/Moscow''),
        (''autoreply_mode'', PyStr ''vacation''), (''status'', PyStr ''vacation''),
        (''vacation_start'', PyNone), (''vacation_end'', PyNone), (''sick_until'', PyNone)]"
      "PyStr ''vacation''" AutoReplyMode.VACATION "PyStr ''Europe/Moscow''" "[]" "PyStr ''hello''",
      OF _ this]
  show ?thesis
    by (auto simp add: dict_get_def)
qed

section \<open>Values outside the enumerations\<close>





end
